theory Spec2Isabelle
  imports Complex_Main
begin

section \<open>Fan curve controller (Fan-Curve/fan-curve.py)\<close>

text \<open>
  Numbers. A duty is a Python \<open>int\<close>, modelled as \<open>int\<close>. A temperature is an
  \<open>int\<close> or a \<open>float\<close> in the source (\<open>read_temp\<close> returns \<open>temp / 1000.0\<close> or the
  integer itself); both are modelled as exact rationals, so \<open>/\<close>, \<open>*\<close>, \<open>+\<close>, \<open>-\<close> on
  temperatures are the exact operations and \<open>int(x)\<close> on a float is truncation
  toward zero.
\<close>

text \<open>
  The exceptions that can leave a function of the controller. A \<open>ValueError\<close> of
  \<open>int()\<close> and an \<open>OSError\<close> of a file operation are caught where they arise and
  appear as \<open>None\<close> or \<open>False\<close> results.
\<close>

datatype py_exception = IndexError | TypeError | SystemExit int

subsection \<open>FanCurve\<close>

text \<open>A curve point is the dictionary \<open>{"temp": t, "fan": f}\<close>.\<close>

record curve_point =
  temp :: rat
  fan :: int

text \<open>
  The configuration dictionary. \<open>hysteresis\<close> and \<open>update_interval\<close> are read with
  \<open>config.get(key, default)\<close>, so a missing key is \<open>None\<close>.
\<close>

record config =
  cpu_curve :: "curve_point list"
  gpu_curve :: "curve_point list"
  hysteresis :: "int option"
  update_interval :: "int option"

definition default_config :: config where
  "default_config =
     \<lparr>cpu_curve =
        [\<lparr>temp = 35, fan = 25\<rparr>, \<lparr>temp = 45, fan = 40\<rparr>, \<lparr>temp = 55, fan = 60\<rparr>,
         \<lparr>temp = 65, fan = 75\<rparr>, \<lparr>temp = 75, fan = 90\<rparr>, \<lparr>temp = 85, fan = 100\<rparr>],
      gpu_curve =
        [\<lparr>temp = 40, fan = 30\<rparr>, \<lparr>temp = 50, fan = 45\<rparr>, \<lparr>temp = 60, fan = 65\<rparr>,
         \<lparr>temp = 70, fan = 80\<rparr>, \<lparr>temp = 80, fan = 95\<rparr>, \<lparr>temp = 90, fan = 100\<rparr>],
      hysteresis = Some 2,
      update_interval = Some 1\<rparr>"

text \<open>\<open>int(x)\<close> for a float \<open>x\<close>: rounds toward zero.\<close>

definition py_int_of_float :: "rat \<Rightarrow> int" where
  "py_int_of_float x = (if x < 0 then \<lceil>x\<rceil> else \<lfloor>x\<rfloor>)"

text \<open>
  The body of the \<open>for i, point in enumerate(curve)\<close> loop of
  \<open>calculate_fan_speed\<close>, entered when \<open>temp <= point["temp"]\<close> holds at an index
  \<open>i > 0\<close>: interpolation between \<open>curve[i-1]\<close> and \<open>point\<close>, then the hysteresis test.
\<close>

definition interpolate_commit ::
  "int \<Rightarrow> rat \<Rightarrow> curve_point \<Rightarrow> curve_point \<Rightarrow> int \<Rightarrow> int" where
  "interpolate_commit hyst t prev_point point current_fan =
     (let temp_range = temp point - temp prev_point;
          fan_range = fan point - fan prev_point;
          target_fan =
            (if temp_range > 0
             then (let temp_offset = t - temp prev_point;
                       fan_offset = (temp_offset / temp_range) * of_int fan_range
                   in of_int (fan prev_point) + fan_offset)
             else of_int (fan point))
      in if \<bar>target_fan - of_int current_fan\<bar> > of_int hyst
         then py_int_of_float target_fan
         else current_fan)"

text \<open>
  The loop itself: \<open>i\<close> is the index of the enumeration and the last argument the
  points not yet visited. When the loop ends without returning, \<open>curve[-1]\<close> is
  read, which raises \<open>IndexError\<close> on an empty curve.
\<close>

fun curve_loop ::
  "int \<Rightarrow> rat \<Rightarrow> curve_point list \<Rightarrow> int \<Rightarrow> nat \<Rightarrow> curve_point list \<Rightarrow> py_exception + int" where
  "curve_loop hyst t curve current_fan i [] =
     (if curve = [] then Inl IndexError else Inr (fan (last curve)))"
| "curve_loop hyst t curve current_fan i (point # rest) =
     (if t \<le> temp point
      then (if i = 0 then Inr (fan point)
            else Inr (interpolate_commit hyst t (curve ! (i - 1)) point current_fan))
      else curve_loop hyst t curve current_fan (Suc i) rest)"

text \<open>\<open>self.config.get("hysteresis", 3)\<close>.\<close>

definition get_hysteresis :: "config \<Rightarrow> int" where
  "get_hysteresis cfg = (case hysteresis cfg of Some h \<Rightarrow> h | None \<Rightarrow> 3)"

definition calculate_fan_speed ::
  "config \<Rightarrow> rat option \<Rightarrow> curve_point list \<Rightarrow> int \<Rightarrow> py_exception + int" where
  "calculate_fan_speed cfg tmp curve current_fan =
     (case tmp of
        None \<Rightarrow> Inr current_fan
      | Some t \<Rightarrow>
          (let hyst = get_hysteresis cfg
           in curve_loop hyst t curve current_fan 0 curve))"

text \<open>
  The value of \<open>target_fan\<close> on the branch \<open>temp_range > 0\<close>, before \<open>int()\<close>:
  \<open>prev_point["fan"] + (temp - prev_point["temp"]) / temp_range * fan_range\<close>.
\<close>

definition linear_target :: "rat \<Rightarrow> curve_point \<Rightarrow> curve_point \<Rightarrow> rat" where
  "linear_target t prev_point point =
     of_int (fan prev_point) +
     ((t - temp prev_point) / (temp point - temp prev_point)) * of_int (fan point - fan prev_point)"

subsection \<open>Text: \<open>str.strip\<close>, \<open>str.split\<close>, \<open>int(str)\<close> and \<open>str(int)\<close>\<close>

text \<open>
  File contents are strings of characters with code points below 256. The white
  space that \<open>str.strip()\<close> and \<open>int()\<close> remove there: tab, line feed, vertical
  tab, form feed, carriage return, the separators 28 to 31, space, NEL (133) and
  the no-break space (160).
\<close>

definition py_isspace :: "char \<Rightarrow> bool" where
  "py_isspace c = ((of_char c :: nat) \<in> set [9, 10, 11, 12, 13, 28, 29, 30, 31, 32, 133, 160])"

definition py_strip :: "string \<Rightarrow> string" where
  "py_strip s = rev (dropWhile py_isspace (rev (dropWhile py_isspace s)))"

text \<open>
  \<open>s.split(sep)\<close> for a separator of one character: the fields between the
  separators, at least one field. \<open>acc\<close> holds the current field, reversed.
\<close>

fun split_acc :: "char \<Rightarrow> string \<Rightarrow> string \<Rightarrow> string list" where
  "split_acc sep acc [] = [rev acc]"
| "split_acc sep acc (c # cs) =
     (if c = sep then rev acc # split_acc sep [] cs else split_acc sep (c # acc) cs)"

definition py_split :: "char \<Rightarrow> string \<Rightarrow> string list" where
  "py_split sep s = split_acc sep [] s"

definition is_digit :: "char \<Rightarrow> bool" where
  "is_digit c = (48 \<le> (of_char c :: nat) \<and> (of_char c :: nat) \<le> 57)"

definition digit_val :: "char \<Rightarrow> nat" where
  "digit_val c = of_char c - 48"

text \<open>
  The digits of a decimal literal after its first digit: a digit, or one
  underscore followed by a digit. \<open>None\<close> is Python's \<open>ValueError\<close>.
\<close>

fun parse_digits :: "nat \<Rightarrow> string \<Rightarrow> nat option" where
  "parse_digits acc [] = Some acc"
| "parse_digits acc [c] = (if is_digit c then Some (10 * acc + digit_val c) else None)"
| "parse_digits acc (c # d # cs) =
     (if is_digit c then parse_digits (10 * acc + digit_val c) (d # cs)
      else if c = CHR ''_'' \<and> is_digit d then parse_digits (10 * acc + digit_val d) cs
      else None)"

definition parse_nat :: "string \<Rightarrow> nat option" where
  "parse_nat s =
     (case s of
        [] \<Rightarrow> None
      | c # cs \<Rightarrow> if is_digit c then parse_digits (digit_val c) cs else None)"

text \<open>\<open>int(s)\<close> in base 10: surrounding white space, an optional sign, the digits.\<close>

definition py_int :: "string \<Rightarrow> int option" where
  "py_int s =
     (case py_strip s of
        [] \<Rightarrow> None
      | c # cs \<Rightarrow>
          if c = CHR ''-'' then map_option (\<lambda>n. - int n) (parse_nat cs)
          else if c = CHR ''+'' then map_option int (parse_nat cs)
          else map_option int (parse_nat (c # cs)))"

definition digit_char :: "nat \<Rightarrow> char" where
  "digit_char d = char_of (48 + d)"

function str_nat :: "nat \<Rightarrow> string" where
  "str_nat n = (if n < 10 then [digit_char n] else str_nat (n div 10) @ [digit_char (n mod 10)])"
  by pat_completeness auto
termination
  by (relation "measure id") auto

text \<open>\<open>str(i)\<close>, which is what \<open>f"{i}"\<close> writes for an integer.\<close>

definition py_str :: "int \<Rightarrow> string" where
  "py_str i = (if i < 0 then CHR ''-'' # str_nat (nat (- i)) else str_nat (nat i))"

subsection \<open>The file system the controller talks to\<close>

text \<open>
  Opening and reading a file either gives its text or fails with one of the two
  errors that \<open>read_temp\<close> names in its handler; both are \<open>OSError\<close>s, which
  \<open>get_fan_speed\<close> catches as such. A write either succeeds or raises \<open>OSError\<close>.
\<close>

datatype read_outcome = FileNotFound | PermissionDenied | Content string

record env =
  path_exists :: "string \<Rightarrow> bool"
  glob :: "string \<Rightarrow> string list"
  read_file :: "string \<Rightarrow> read_outcome"
  write_file :: "string \<Rightarrow> string \<Rightarrow> bool"

subsection \<open>ThermalMonitor\<close>

definition cpu_thermal_paths :: "string list" where
  "cpu_thermal_paths =
     [''/sys/class/thermal/thermal_zone0/temp'',
      ''/sys/class/thermal/thermal_zone1/temp'',
      ''/sys/class/hwmon/hwmon0/temp1_input'',
      ''/sys/class/hwmon/hwmon1/temp1_input'']"

definition gpu_thermal_paths :: "string list" where
  "gpu_thermal_paths =
     [''/sys/class/drm/card0/device/hwmon/hwmon*/temp1_input'',
      ''/sys/class/hwmon/hwmon*/temp1_input'']"

definition read_temp :: "env \<Rightarrow> string \<Rightarrow> rat option" where
  "read_temp e path =
     (case read_file e path of
        Content s \<Rightarrow>
          (case py_int (py_strip s) of
             None \<Rightarrow> None
           | Some raw \<Rightarrow> Some (if raw > 200 then of_int raw / 1000 else of_int raw))
      | FileNotFound \<Rightarrow> None
      | PermissionDenied \<Rightarrow> None)"

text \<open>One of the two \<open>for pattern in ...\<close> loops of \<open>find_thermal_zones\<close>.\<close>

fun find_zones :: "env \<Rightarrow> string list \<Rightarrow> string list" where
  "find_zones e [] = []"
| "find_zones e (pattern # patterns) =
     (if CHR ''*'' \<in> set pattern then glob e pattern @ find_zones e patterns
      else if path_exists e pattern then pattern # find_zones e patterns
      else find_zones e patterns)"

definition find_thermal_zones :: "env \<Rightarrow> string list \<times> string list" where
  "find_thermal_zones e = (find_zones e cpu_thermal_paths, find_zones e gpu_thermal_paths)"

text \<open>The \<open>for zone in zones\<close> loop that appends every reading that is not \<open>None\<close>.\<close>

fun collect_temps :: "env \<Rightarrow> string list \<Rightarrow> rat list" where
  "collect_temps e [] = []"
| "collect_temps e (zone # zones) =
     (case read_temp e zone of
        None \<Rightarrow> collect_temps e zones
      | Some t \<Rightarrow> t # collect_temps e zones)"

text \<open>\<open>max(temps) if temps else None\<close>; \<open>max\<close> keeps the first largest element.\<close>

definition max_or_none :: "rat list \<Rightarrow> rat option" where
  "max_or_none temps =
     (case temps of
        [] \<Rightarrow> None
      | t # ts \<Rightarrow> Some (foldl (\<lambda>m x. if x > m then x else m) t ts))"

text \<open>
  The body that \<open>get_cpu_temp\<close> and \<open>get_gpu_temp\<close> share, on the zones each of
  them takes from \<open>find_thermal_zones\<close>.
\<close>

definition sample_zones :: "env \<Rightarrow> string list \<Rightarrow> rat option" where
  "sample_zones e zones = max_or_none (collect_temps e zones)"

definition get_cpu_temp :: "env \<Rightarrow> rat option" where
  "get_cpu_temp e = sample_zones e (fst (find_thermal_zones e))"

definition get_gpu_temp :: "env \<Rightarrow> rat option" where
  "get_gpu_temp e = sample_zones e (snd (find_thermal_zones e))"

subsection \<open>FanController\<close>

definition sysfs_path :: string where
  "sysfs_path =
     ''/sys/module/linuwu_sense/drivers/platform:acer-wmi/acer-wmi/predator_sense/fan_speed''"

definition check_module :: "env \<Rightarrow> py_exception + unit" where
  "check_module e = (if path_exists e sysfs_path then Inr () else Inl (SystemExit 1))"

text \<open>The text \<open>f"{cpu_percent},{gpu_percent}"\<close>.\<close>

definition fan_value :: "int \<Rightarrow> int \<Rightarrow> string" where
  "fan_value cpu_percent gpu_percent = py_str cpu_percent @ '','' @ py_str gpu_percent"

definition set_fan_speed :: "env \<Rightarrow> int \<Rightarrow> int \<Rightarrow> bool" where
  "set_fan_speed e cpu_percent gpu_percent =
     write_file e sysfs_path (fan_value cpu_percent gpu_percent)"

text \<open>
  \<open>int(speeds[0]), int(speeds[1])\<close> on the text that was read: \<open>int(speeds[0])\<close> is
  evaluated first; a \<open>ValueError\<close> is caught and gives \<open>None\<close>, the \<open>IndexError\<close> of
  \<open>speeds[1]\<close> is not among the handler's exceptions.
\<close>

definition parse_speeds :: "string \<Rightarrow> py_exception + (int \<times> int) option" where
  "parse_speeds s =
     (case py_split CHR '','' (py_strip s) of
        [] \<Rightarrow> Inl IndexError
      | s0 # rest \<Rightarrow>
          (case py_int s0 of
             None \<Rightarrow> Inr None
           | Some a \<Rightarrow>
               (case rest of
                  [] \<Rightarrow> Inl IndexError
                | s1 # _ \<Rightarrow>
                    (case py_int s1 of
                       None \<Rightarrow> Inr None
                     | Some b \<Rightarrow> Inr (Some (a, b))))))"

definition get_fan_speed :: "env \<Rightarrow> py_exception + (int \<times> int) option" where
  "get_fan_speed e =
     (case read_file e sysfs_path of
        Content s \<Rightarrow> parse_speeds s
      | FileNotFound \<Rightarrow> Inr None
      | PermissionDenied \<Rightarrow> Inr None)"

subsection \<open>FanCurveController\<close>

record controller_state =
  last_cpu_fan :: int
  last_gpu_fan :: int
  running :: bool

definition init_state :: controller_state where
  "init_state = \<lparr>last_cpu_fan = 0, last_gpu_fan = 0, running = False\<rparr>"

text \<open>
  The format specification \<open>:.1f\<close> of the status line
  \<open>f"CPU: {cpu_temp:.1f}... GPU: {gpu_temp:.1f}..."\<close> raises \<open>TypeError\<close> on \<open>None\<close>
  and accepts every number; the printed text itself is not modelled.
\<close>

definition format_1f :: "rat option \<Rightarrow> py_exception + unit" where
  "format_1f tmp = (case tmp of None \<Rightarrow> Inl TypeError | Some t \<Rightarrow> Inr ())"

definition status_line :: "rat option \<Rightarrow> rat option \<Rightarrow> py_exception + unit" where
  "status_line cpu_temp gpu_temp =
     (case format_1f cpu_temp of Inl ex \<Rightarrow> Inl ex | Inr u \<Rightarrow> format_1f gpu_temp)"

text \<open>
  What one call of \<open>run_once\<close> leaves behind: the controller's state, the texts
  it tried to write to the control file, in order, and either the returned
  boolean or the exception that left the function.
\<close>

record cycle_result =
  state_after :: controller_state
  writes :: "string list"
  outcome :: "py_exception + bool"

definition run_once :: "env \<Rightarrow> config \<Rightarrow> controller_state \<Rightarrow> cycle_result" where
  "run_once e cfg st =
     (let cpu_temp = get_cpu_temp e;
          gpu_temp = get_gpu_temp e
      in if cpu_temp = None \<and> gpu_temp = None
         then \<lparr>state_after = st, writes = [], outcome = Inr False\<rparr>
         else
           (case calculate_fan_speed cfg cpu_temp (cpu_curve cfg) (last_cpu_fan st) of
              Inl ex \<Rightarrow> \<lparr>state_after = st, writes = [], outcome = Inl ex\<rparr>
            | Inr new_cpu_fan \<Rightarrow>
                (case calculate_fan_speed cfg gpu_temp (gpu_curve cfg) (last_gpu_fan st) of
                   Inl ex \<Rightarrow> \<lparr>state_after = st, writes = [], outcome = Inl ex\<rparr>
                 | Inr new_gpu_fan \<Rightarrow>
                     if new_cpu_fan \<noteq> last_cpu_fan st \<or> new_gpu_fan \<noteq> last_gpu_fan st
                     then
                       (if set_fan_speed e new_cpu_fan new_gpu_fan
                        then
                          (let st' = st\<lparr>last_cpu_fan := new_cpu_fan, last_gpu_fan := new_gpu_fan\<rparr>
                           in case status_line cpu_temp gpu_temp of
                                Inl ex \<Rightarrow>
                                  \<lparr>state_after = st',
                                   writes = [fan_value new_cpu_fan new_gpu_fan],
                                   outcome = Inl ex\<rparr>
                              | Inr u \<Rightarrow>
                                  \<lparr>state_after = st',
                                   writes = [fan_value new_cpu_fan new_gpu_fan],
                                   outcome = Inr True\<rparr>)
                        else
                          \<lparr>state_after = st,
                           writes = [fan_value new_cpu_fan new_gpu_fan],
                           outcome = Inr False\<rparr>)
                     else \<lparr>state_after = st, writes = [], outcome = Inr False\<rparr>)))"

text \<open>
  \<open>run_daemon\<close> on a finite schedule of cycles. Each cycle has the file system
  of that moment and says whether the operator's interrupt arrives during the
  sleep that follows \<open>run_once\<close>. The loop leaves \<open>while self.running\<close> only by an
  exception: \<open>KeyboardInterrupt\<close> is caught (\<open>Stopped\<close>), any other exception
  leaves \<open>run_daemon\<close> (\<open>Crashed\<close>). \<open>Still_running\<close> is the end of the schedule.
\<close>

datatype daemon_exit = Still_running | Stopped | Crashed py_exception

fun daemon_loop :: "config \<Rightarrow> controller_state \<Rightarrow> (env \<times> bool) list \<Rightarrow> controller_state \<times> daemon_exit" where
  "daemon_loop cfg st [] = (st, Still_running)"
| "daemon_loop cfg st ((e, interrupted) # cycles) =
     (let r = run_once e cfg st
      in case outcome r of
           Inl ex \<Rightarrow> (state_after r, Crashed ex)
         | Inr changed \<Rightarrow>
             if interrupted then ((state_after r)\<lparr>running := False\<rparr>, Stopped)
             else daemon_loop cfg (state_after r) cycles)"

definition run_daemon :: "config \<Rightarrow> controller_state \<Rightarrow> (env \<times> bool) list \<Rightarrow> controller_state \<times> daemon_exit" where
  "run_daemon cfg st cycles = daemon_loop cfg (st\<lparr>running := True\<rparr>) cycles"

subsection \<open>The specification's hysteresis contract and its scenarios\<close>


text \<open>The curve and band of the specification's scenarios.\<close>

definition scenario_curve :: "curve_point list" where
  "scenario_curve = [\<lparr>temp = 30, fan = 20\<rparr>, \<lparr>temp = 50, fan = 50\<rparr>, \<lparr>temp = 70, fan = 90\<rparr>]"

definition scenario_config :: config where
  "scenario_config =
     \<lparr>cpu_curve = scenario_curve, gpu_curve = scenario_curve,
      hysteresis = Some 5, update_interval = Some 1\<rparr>"


subsection \<open>File systems used in the examples\<close>

text \<open>
  One CPU sensor that reads 50000 millidegrees, no GPU sensor, and a control
  file that accepts every write.
\<close>

definition cpu_only_env :: env where
  "cpu_only_env =
     \<lparr>path_exists = (\<lambda>p. p = ''/sys/class/thermal/thermal_zone0/temp''),
      glob = (\<lambda>pattern. []),
      read_file = (\<lambda>p. if p = ''/sys/class/thermal/thermal_zone0/temp''
                         then Content ''50000\<newline>'' else FileNotFound),
      write_file = (\<lambda>p s. True)\<rparr>"

text \<open>No sensor at all.\<close>

definition no_sensor_env :: env where
  "no_sensor_env =
     \<lparr>path_exists = (\<lambda>p. False), glob = (\<lambda>pattern. []),
      read_file = (\<lambda>p. FileNotFound), write_file = (\<lambda>p s. True)\<rparr>"



section \<open>Properties\<close>

subsection \<open>The loop of \<open>calculate_fan_speed\<close>\<close>

lemma curve_loop_skip:
  "\<forall>p\<in>set pre. temp p < t \<Longrightarrow>
   curve_loop h t curve cur i (pre @ rest) = curve_loop h t curve cur (i + length pre) rest"
  by (induction pre arbitrary: i) auto


lemma curve_loop_below:
  assumes "curve \<noteq> []" and "t \<le> temp (hd curve)"
  shows "curve_loop h t curve cur 0 curve = Inr (fan (hd curve))"
  using assms by (cases curve) auto

lemma curve_loop_between:
  assumes c: "curve = pre @ prev_point # point # rest"
    and pre: "\<forall>p\<in>set pre. temp p < t"
    and lo: "temp prev_point < t" and hi: "t \<le> temp point"
  shows "curve_loop h t curve cur 0 curve = Inr (interpolate_commit h t prev_point point cur)"
proof -
  have all: "\<forall>p\<in>set (pre @ [prev_point]). temp p < t"
    using pre lo by auto
  have "curve_loop h t curve cur 0 ((pre @ [prev_point]) @ point # rest) =
        curve_loop h t curve cur (0 + length (pre @ [prev_point])) (point # rest)"
    by (rule curve_loop_skip [OF all])
  moreover have "curve ! length pre = prev_point"
    by (simp add: c)
  ultimately show ?thesis
    using hi c by simp
qed

lemma interpolate_commit_linear:
  assumes "temp prev_point < t" and "t \<le> temp point"
  shows "interpolate_commit h t prev_point point cur =
     (if \<bar>linear_target t prev_point point - of_int cur\<bar> > of_int h
      then py_int_of_float (linear_target t prev_point point) else cur)"
  using assms by (simp add: interpolate_commit_def linear_target_def Let_def)



lemma trunc_of_int: "py_int_of_float (of_int n) = n"
  by (simp add: py_int_of_float_def)


lemma linear_target_at_point:
  assumes "temp prev_point < temp point"
  shows "linear_target (temp point) prev_point point = of_int (fan point)"
  using assms by (simp add: linear_target_def)

lemma calc_below:
  "curve \<noteq> [] \<Longrightarrow> t \<le> temp (hd curve) \<Longrightarrow>
   calculate_fan_speed cfg (Some t) curve cur = Inr (fan (hd curve))"
  by (simp add: calculate_fan_speed_def curve_loop_below)


lemma calc_between:
  assumes "curve = pre @ prev_point # point # rest"
    and "\<forall>p\<in>set pre. temp p < t"
    and "temp prev_point < t" and "t \<le> temp point"
  shows "calculate_fan_speed cfg (Some t) curve cur =
     Inr (if \<bar>linear_target t prev_point point - of_int cur\<bar> > of_int (get_hysteresis cfg)
          then py_int_of_float (linear_target t prev_point point) else cur)"
  using curve_loop_between [OF assms, of "get_hysteresis cfg" cur]
    interpolate_commit_linear [OF assms(3,4), of "get_hysteresis cfg" cur]
  by (simp add: calculate_fan_speed_def)

subsection \<open>C1: where the hysteresis test applies\<close>




subsection \<open>C2: the duty at a breakpoint's temperature\<close>

text \<open>
  C2 (amended). On a curve with strictly ascending temperatures, at the
  temperature of the breakpoint \<open>P[i]\<close> the result is \<open>P[i]\<close>'s duty when \<open>i = 0\<close> or
  when that duty is further than the band from the current duty; otherwise the
  current duty is kept.
\<close>

theorem breakpoint_duty:
  assumes sorted: "sorted_wrt (\<lambda>a b. temp a < temp b) curve" and i: "i < length curve"
  shows "calculate_fan_speed cfg (Some (temp (curve ! i))) curve cur =
     Inr (if i = 0 \<or> \<bar>fan (curve ! i) - cur\<bar> > get_hysteresis cfg then fan (curve ! i) else cur)"
proof (cases i)
  case 0
  then show ?thesis
    using i calc_below [of curve "temp (curve ! 0)" cfg cur] by (cases curve) auto
next
  case (Suc j)
  define pre where "pre = take j curve"
  define rest where "rest = drop (Suc i) curve"
  have j: "j < length curve" using i Suc by simp
  have c: "curve = pre @ curve ! j # curve ! i # rest"
    unfolding pre_def rest_def Suc
    using i Suc by (metis Cons_nth_drop_Suc Suc_lessD append_take_drop_id)
  have lt: "\<forall>p\<in>set pre. temp p < temp (curve ! i)"
  proof
    fix p assume "p \<in> set pre"
    then obtain k where "k < j" "p = curve ! k"
      using j by (auto simp: pre_def in_set_conv_nth)
    then show "temp p < temp (curve ! i)"
      using sorted_wrt_nth_less [OF sorted, of k i] i Suc by simp
  qed
  have lo: "temp (curve ! j) < temp (curve ! i)"
    using sorted_wrt_nth_less [OF sorted, of j i] i Suc by simp
  have T: "linear_target (temp (curve ! i)) (curve ! j) (curve ! i) = of_int (fan (curve ! i))"
    using lo by (rule linear_target_at_point)
  have "\<bar>(of_int (fan (curve ! i)) :: rat) - of_int cur\<bar> = of_int \<bar>fan (curve ! i) - cur\<bar>"
    by simp
  then have cmp: "(\<bar>(of_int (fan (curve ! i)) :: rat) - of_int cur\<bar> > of_int (get_hysteresis cfg))
     = (\<bar>fan (curve ! i) - cur\<bar> > get_hysteresis cfg)"
    by (simp only: of_int_less_iff)
  have "calculate_fan_speed cfg (Some (temp (curve ! i))) curve cur =
     Inr (if \<bar>(of_int (fan (curve ! i)) :: rat) - of_int cur\<bar> > of_int (get_hysteresis cfg)
          then py_int_of_float (of_int (fan (curve ! i))) else cur)"
    using calc_between [OF c lt lo order_refl, of cfg cur] unfolding T .
  then show ?thesis
    unfolding cmp trunc_of_int using Suc by simp
qed

text \<open>
  C2, as stated, fails on the scenario curve at 50 degrees, the temperature of
  its second breakpoint (duty 50), with current duty 48 and band 5: the result
  is 48.
\<close>

theorem breakpoint_holds_current_counterexample:
  "2 \<le> length scenario_curve \<and>
   calculate_fan_speed scenario_config (Some (temp (scenario_curve ! 1))) scenario_curve 48
     \<noteq> Inr (fan (scenario_curve ! 1))"
  by (simp add: calculate_fan_speed_def scenario_curve_def scenario_config_def
      get_hysteresis_def interpolate_commit_def)

text \<open>The second breakpoint of the scenario curve, from current duty 20 and from 48.\<close>

theorem breakpoint_duty_witness:
  "sorted_wrt (\<lambda>a b. temp a < temp b) scenario_curve \<and> 1 < length scenario_curve \<and>
   calculate_fan_speed scenario_config (Some 50) scenario_curve 20 = Inr 50 \<and>
   calculate_fan_speed scenario_config (Some 50) scenario_curve 48 = Inr 48"
proof -
  have s: "sorted_wrt (\<lambda>a b. temp a < temp b) scenario_curve"
    by (simp add: scenario_curve_def)
  have i: "1 < length scenario_curve"
    by (simp add: scenario_curve_def)
  show ?thesis
    using s i breakpoint_duty [OF s i, of scenario_config 20]
      breakpoint_duty [OF s i, of scenario_config 48]
    by (simp add: scenario_curve_def get_hysteresis_def scenario_config_def)
qed

subsection \<open>C3: the comparison is made before truncation\<close>




subsection \<open>C10: the result stays a duty\<close>



subsection \<open>The encoding of the control file\<close>

declare str_nat.simps [simp del]

lemma of_char_digit_char: "d < 10 \<Longrightarrow> (of_char (digit_char d) :: nat) = 48 + d"
  by (simp add: digit_char_def)

lemma is_digit_digit_char: "d < 10 \<Longrightarrow> is_digit (digit_char d)"
  by (simp add: is_digit_def of_char_digit_char)

lemma digit_val_digit_char: "d < 10 \<Longrightarrow> digit_val (digit_char d) = d"
  by (simp add: digit_val_def of_char_digit_char)

lemma str_nat_digits: "\<forall>c\<in>set (str_nat n). is_digit c"
proof (induction n rule: str_nat.induct)
  case (1 n)
  show ?case
  proof (cases "n < 10")
    case True
    then show ?thesis by (simp add: str_nat.simps [of n] is_digit_digit_char)
  next
    case False
    then show ?thesis
      using "1.IH" by (simp add: str_nat.simps [of n] is_digit_digit_char)
  qed
qed

lemma str_nat_value: "foldl (\<lambda>a c. 10 * a + digit_val c) 0 (str_nat n) = n"
proof (induction n rule: str_nat.induct)
  case (1 n)
  show ?case
  proof (cases "n < 10")
    case True
    then show ?thesis by (simp add: str_nat.simps [of n] digit_val_digit_char)
  next
    case False
    then show ?thesis
      using "1.IH" by (simp add: str_nat.simps [of n] digit_val_digit_char)
  qed
qed

lemma str_nat_nonempty: "str_nat n \<noteq> []"
  by (simp add: str_nat.simps [of n])

lemma parse_digits_all:
  "\<forall>c\<in>set ds. is_digit c \<Longrightarrow>
   parse_digits acc ds = Some (foldl (\<lambda>a c. 10 * a + digit_val c) acc ds)"
  by (induction acc ds rule: parse_digits.induct) simp_all

lemma parse_nat_str_nat: "parse_nat (str_nat n) = Some n"
proof -
  obtain c cs where s: "str_nat n = c # cs"
    using str_nat_nonempty [of n] by (cases "str_nat n") auto
  have d: "is_digit c" "\<forall>x\<in>set cs. is_digit x"
    using str_nat_digits [of n] s by simp_all
  have "foldl (\<lambda>a c. 10 * a + digit_val c) (digit_val c) cs = n"
    using str_nat_value [of n] s by simp
  then show ?thesis
    using d by (simp add: parse_nat_def s parse_digits_all)
qed

lemma is_digit_not_space: "is_digit c \<Longrightarrow> \<not> py_isspace c"
  by (auto simp: is_digit_def py_isspace_def)

lemma is_digit_not_sign: "is_digit c \<Longrightarrow> c \<noteq> CHR ''-'' \<and> c \<noteq> CHR ''+'' \<and> c \<noteq> CHR '',''"
  by (auto simp: is_digit_def)

lemma py_str_chars: "\<forall>c\<in>set (py_str i). \<not> py_isspace c \<and> c \<noteq> CHR '',''"
  using str_nat_digits is_digit_not_space is_digit_not_sign
  by (auto simp: py_str_def py_isspace_def)

lemma py_strip_no_space: "\<forall>c\<in>set s. \<not> py_isspace c \<Longrightarrow> py_strip s = s"
proof -
  assume a: "\<forall>c\<in>set s. \<not> py_isspace c"
  have dw: "dropWhile py_isspace xs = xs" if "\<forall>c\<in>set xs. \<not> py_isspace c" for xs
    using that by (cases xs) simp_all
  have "dropWhile py_isspace s = s"
    using dw [of s] a by simp
  moreover have "dropWhile py_isspace (rev s) = rev s"
    using dw [of "rev s"] a by simp
  ultimately show ?thesis by (simp add: py_strip_def)
qed

lemma py_int_py_str: "py_int (py_str i) = Some i"
proof (cases "i < 0")
  case True
  have "py_strip (py_str i) = py_str i"
    using py_str_chars [of i] by (intro py_strip_no_space) simp
  then show ?thesis
    using True by (simp add: py_int_def py_str_def parse_nat_str_nat)
next
  case False
  obtain c cs where s: "str_nat (nat i) = c # cs"
    using str_nat_nonempty [of "nat i"] by (cases "str_nat (nat i)") auto
  have "is_digit c" using str_nat_digits [of "nat i"] s by simp
  then have c: "c \<noteq> CHR ''-''" "c \<noteq> CHR ''+''" using is_digit_not_sign by simp_all
  have "py_strip (py_str i) = py_str i"
    using py_str_chars [of i] by (intro py_strip_no_space) simp
  moreover have "py_str i = c # cs" using False s by (simp add: py_str_def)
  moreover have "parse_nat (c # cs) = Some (nat i)" using parse_nat_str_nat [of "nat i"] s by simp
  ultimately show ?thesis
    using False c by (simp add: py_int_def)
qed

lemma split_acc_field:
  "\<forall>c\<in>set a. c \<noteq> sep \<Longrightarrow> split_acc sep acc (a @ rest) = split_acc sep (rev a @ acc) rest"
  by (induction a arbitrary: acc) simp_all

lemma py_split_two:
  assumes "\<forall>c\<in>set a. c \<noteq> sep" and "\<forall>c\<in>set b. c \<noteq> sep"
  shows "py_split sep (a @ sep # b) = [a, b]"
proof -
  have "split_acc sep [] (a @ sep # b) = split_acc sep (rev a @ []) (sep # b)"
    using assms(1) by (rule split_acc_field)
  moreover have "split_acc sep [] (b @ []) = split_acc sep (rev b @ []) []"
    using assms(2) by (rule split_acc_field)
  ultimately show ?thesis by (simp add: py_split_def)
qed

lemma parse_speeds_fan_value: "parse_speeds (fan_value c g) = Inr (Some (c, g))"
proof -
  have "\<forall>x\<in>set (fan_value c g). \<not> py_isspace x"
    using py_str_chars [of c] py_str_chars [of g] by (auto simp: fan_value_def py_isspace_def)
  then have strip: "py_strip (fan_value c g) = fan_value c g"
    by (rule py_strip_no_space)
  have "py_split CHR '','' (py_str c @ CHR '','' # py_str g) = [py_str c, py_str g]"
    using py_str_chars [of c] py_str_chars [of g] by (intro py_split_two) simp_all
  then have split: "py_split CHR '','' (fan_value c g) = [py_str c, py_str g]"
    by (simp add: fan_value_def)
  show ?thesis
    by (simp add: parse_speeds_def strip split py_int_py_str)
qed

subsection \<open>C9: writing and reading back the duty pair\<close>

text \<open>
  C9. The duties 41 and 67 are written as the text \<open>41,67\<close>, that text is read
  back as the pair (41, 67), and for every pair of integers \<open>get_fan_speed\<close>
  returns the pair itself from a control file that holds what \<open>set_fan_speed\<close>
  writes for it.
\<close>

theorem actuator_round_trip:
  "fan_value 41 67 = ''41,67'' \<and>
   parse_speeds ''41,67'' = Inr (Some (41, 67)) \<and>
   get_fan_speed (e\<lparr>read_file := (read_file e)(sysfs_path := Content (fan_value c g))\<rparr>)
     = Inr (Some (c, g))"
proof -
  have a: "fan_value 41 67 = ''41,67''"
    by code_simp
  have "parse_speeds (fan_value 41 67) = Inr (Some (41, 67))"
    by (rule parse_speeds_fan_value)
  then have b: "parse_speeds ''41,67'' = Inr (Some (41, 67))"
    unfolding a .
  show ?thesis
    using a b by (simp add: get_fan_speed_def parse_speeds_fan_value)
qed

subsection \<open>C5: reading back a control file without a comma\<close>

text \<open>
  C5 fails on the code. When the control file holds \<open>41\<close>, \<open>split(',')\<close> gives one
  field, \<open>int(speeds[0])\<close> succeeds and \<open>speeds[1]\<close> raises \<open>IndexError\<close>, which the
  handler \<open>except (OSError, IOError, ValueError)\<close> does not catch: the exception
  leaves \<open>get_fan_speed\<close>.
\<close>

theorem get_fan_speed_without_comma:
  "get_fan_speed (e\<lparr>read_file := (read_file e)(sysfs_path := Content ''41'')\<rparr>) = Inl IndexError"
  by (simp add: get_fan_speed_def parse_speeds_def py_split_def py_strip_def py_isspace_def
      py_int_def parse_nat_def is_digit_def digit_val_def)

subsection \<open>C8: sampling a thermal domain\<close>









subsection \<open>One control cycle on the example file systems\<close>

lemma raw_50000: "py_int (py_strip ''50000\<newline>'') = Some 50000"
  by (simp add: py_int_def py_strip_def py_isspace_def parse_nat_def is_digit_def digit_val_def)

lemma cpu_only_env_temps:
  "get_cpu_temp (cpu_only_env\<lparr>write_file := w\<rparr>) = Some 50"
  "get_gpu_temp (cpu_only_env\<lparr>write_file := w\<rparr>) = None"
  by (simp_all add: cpu_only_env_def get_cpu_temp_def get_gpu_temp_def sample_zones_def
      find_thermal_zones_def cpu_thermal_paths_def gpu_thermal_paths_def max_or_none_def
      read_temp_def raw_50000)

lemma default_cpu_duty_at_50:
  "calculate_fan_speed default_config (Some 50) (cpu_curve default_config) 0 = Inr 50"
  by (simp add: calculate_fan_speed_def default_config_def get_hysteresis_def
      interpolate_commit_def py_int_of_float_def)

lemma fan_value_50_0: "fan_value 50 0 = ''50,0''"
  by code_simp

lemma cpu_only_cycle:
  "run_once (cpu_only_env\<lparr>write_file := w\<rparr>) default_config init_state =
     (if w sysfs_path ''50,0''
      then \<lparr>state_after = init_state\<lparr>last_cpu_fan := 50, last_gpu_fan := 0\<rparr>,
            writes = [''50,0''], outcome = Inl TypeError\<rparr>
      else \<lparr>state_after = init_state, writes = [''50,0''], outcome = Inr False\<rparr>)"
  by (simp add: run_once_def cpu_only_env_temps default_cpu_duty_at_50 fan_value_50_0
      set_fan_speed_def status_line_def format_1f_def
      calculate_fan_speed_def [of _ None] init_state_def)

lemma no_sensor_env_temps:
  "get_cpu_temp no_sensor_env = None" "get_gpu_temp no_sensor_env = None"
  by (simp_all add: no_sensor_env_def get_cpu_temp_def get_gpu_temp_def sample_zones_def
      find_thermal_zones_def cpu_thermal_paths_def gpu_thermal_paths_def max_or_none_def)

subsection \<open>C6: a failed write leaves the state alone\<close>

text \<open>
  C6. If no write of the cycle succeeds, in particular if the one write that
  \<open>run_once\<close> attempts fails, the controller's state after the cycle is the state
  before it; and a state that differs from the one before the cycle was set
  after a successful write of exactly the pair it now holds.
\<close>

theorem failed_write_keeps_state:
  "((\<forall>w\<in>set (writes (run_once e cfg st)). \<not> write_file e sysfs_path w) \<longrightarrow>
      state_after (run_once e cfg st) = st) \<and>
   (state_after (run_once e cfg st) \<noteq> st \<longrightarrow>
      (\<exists>c g. writes (run_once e cfg st) = [fan_value c g] \<and>
         write_file e sysfs_path (fan_value c g) \<and>
         state_after (run_once e cfg st) = st\<lparr>last_cpu_fan := c, last_gpu_fan := g\<rparr>))"
  by (auto simp: run_once_def Let_def set_fan_speed_def split: sum.splits)

text \<open>
  A cycle that computes the new pair (50, 0) and whose write is refused: the
  write was attempted and the state is still the initial one.
\<close>

theorem failed_write_keeps_state_witness:
  "writes (run_once (cpu_only_env\<lparr>write_file := (\<lambda>p s. False)\<rparr>) default_config init_state)
     = [''50,0''] \<and>
   \<not> write_file (cpu_only_env\<lparr>write_file := (\<lambda>p s. False)\<rparr>) sysfs_path ''50,0'' \<and>
   state_after (run_once (cpu_only_env\<lparr>write_file := (\<lambda>p s. False)\<rparr>) default_config init_state)
     = init_state"
proof -
  let ?e = "cpu_only_env\<lparr>write_file := (\<lambda>p s. False)\<rparr>"
  have w: "writes (run_once ?e default_config init_state) = [''50,0'']"
    by (simp add: cpu_only_cycle)
  have f: "\<not> write_file ?e sysfs_path ''50,0''"
    by simp
  have "\<forall>w\<in>set (writes (run_once ?e default_config init_state)). \<not> write_file ?e sysfs_path w"
    by (simp add: w)
  then have "state_after (run_once ?e default_config init_state) = init_state"
    using failed_write_keeps_state [of ?e default_config init_state] by blast
  with w f show ?thesis by blast
qed

subsection \<open>C7: a cycle without any sensor\<close>

text \<open>
  C7. When the CPU and the GPU reading are both \<open>None\<close>, \<open>run_once\<close> attempts no
  write, leaves the state unchanged and returns \<open>False\<close>.
\<close>

theorem no_sensors_no_write:
  "get_cpu_temp e = None \<Longrightarrow> get_gpu_temp e = None \<Longrightarrow>
   writes (run_once e cfg st) = [] \<and> state_after (run_once e cfg st) = st \<and>
   outcome (run_once e cfg st) = Inr False"
  by (simp add: run_once_def)

text \<open>The file system without sensors.\<close>

theorem no_sensors_no_write_witness:
  "get_cpu_temp no_sensor_env = None \<and> get_gpu_temp no_sensor_env = None \<and>
   writes (run_once no_sensor_env default_config init_state) = [] \<and>
   state_after (run_once no_sensor_env default_config init_state) = init_state"
  using no_sensor_env_temps
    no_sensors_no_write [OF no_sensor_env_temps, of default_config init_state]
  by simp

subsection \<open>C4: the status line of a cycle with one sensor missing\<close>

text \<open>
  C4 fails on the code. With a CPU reading of 50 degrees, no GPU sensor, the
  default configuration, the initial state and a control file that accepts the
  write, \<open>run_once\<close> writes \<open>50,0\<close>, stores the new pair and then formats the GPU
  reading \<open>None\<close> with \<open>:.1f\<close> in its status line: \<open>TypeError\<close> leaves \<open>run_once\<close>.
\<close>

theorem cycle_raises_when_one_sensor_missing:
  "get_cpu_temp cpu_only_env = Some 50 \<and> get_gpu_temp cpu_only_env = None \<and>
   write_file cpu_only_env sysfs_path ''50,0'' \<and>
   run_once cpu_only_env default_config init_state =
     \<lparr>state_after = init_state\<lparr>last_cpu_fan := 50, last_gpu_fan := 0\<rparr>,
      writes = [''50,0''], outcome = Inl TypeError\<rparr>"
  using cpu_only_env_temps [of "write_file cpu_only_env"]
    cpu_only_cycle [of "write_file cpu_only_env"]
  by (simp add: cpu_only_env_def)

text \<open>
  \<open>run_daemon\<close> catches \<open>KeyboardInterrupt\<close> only, so the same cycle ends the loop:
  the second cycle of the schedule is never run.
\<close>

theorem cycle_raises_when_one_sensor_missing_witness:
  "run_daemon default_config init_state [(cpu_only_env, False), (cpu_only_env, True)] =
     (\<lparr>last_cpu_fan = 50, last_gpu_fan = 0, running = True\<rparr>, Crashed TypeError)"
proof -
  have "run_once cpu_only_env default_config (init_state\<lparr>running := True\<rparr>) =
     \<lparr>state_after = \<lparr>last_cpu_fan = 50, last_gpu_fan = 0, running = True\<rparr>,
      writes = [''50,0''], outcome = Inl TypeError\<rparr>"
    using cycle_raises_when_one_sensor_missing
    by (simp add: run_once_def init_state_def default_cpu_duty_at_50 fan_value_50_0
        set_fan_speed_def status_line_def format_1f_def calculate_fan_speed_def [of _ None])
  then show ?thesis
    by (simp add: run_daemon_def)
qed

end
